theory Spec2Isabelle
  imports Main
begin

section \<open>Scripts/check\_for\_cuda.py: the diagnostic reporter\<close>

text \<open>
  The script is one \<^verbatim>\<open>try\<close> block that imports \<^verbatim>\<open>torch\<close>, makes five calls into
  \<^verbatim>\<open>torch.cuda\<close> and prints a line after three of them and after the last, and one
  \<^verbatim>\<open>except Exception as ex\<close> clause that prints a single line built from \<^verbatim>\<open>str(ex)\<close>.

  The accelerator runtime is not part of the repository: it is a parameter of the model.
  Every call takes the runtime's (opaque) state and returns either the object it raised
  or its value, together with the state it leaves behind.

  The values are of the types \<^verbatim>\<open>torch.cuda\<close> documents: the device index and the device
  count are Python integers, the device name is a string, availability is a boolean.
  \<^verbatim>\<open>print\<close> and \<^verbatim>\<open>str\<close> are taken to return.
\<close>

subsection \<open>Raised objects\<close>

text \<open>
  Of an object raised by the runtime the script observes two things: whether it is an
  instance of \<^verbatim>\<open>Exception\<close> (the \<^verbatim>\<open>except Exception\<close> clause catches only those; what
  derives from \<^verbatim>\<open>BaseException\<close> alone, such as \<^verbatim>\<open>KeyboardInterrupt\<close> or
  \<^verbatim>\<open>SystemExit\<close>, passes through), and the text \<^verbatim>\<open>str(ex)\<close>.
\<close>

datatype raised = Raised (is_Exception: bool) (str: string)

subsection \<open>The runtime binding\<close>

record 's torch =
  import_torch :: "'s \<Rightarrow> (raised + unit) \<times> 's"
  current_device :: "'s \<Rightarrow> (raised + int) \<times> 's"
  device :: "int \<Rightarrow> 's \<Rightarrow> (raised + unit) \<times> 's"
  device_count :: "'s \<Rightarrow> (raised + int) \<times> 's"
  get_device_name :: "int \<Rightarrow> 's \<Rightarrow> (raised + string) \<times> 's"
  is_available :: "'s \<Rightarrow> (raised + bool) \<times> 's"

text \<open>
  One entry of the call log: which operation was called, with which argument, and what
  came back (\<open>Inl\<close> the raised object, \<open>Inr\<close> the value).
\<close>

datatype event =
    Import_torch "raised + unit"
  | Current_device "raised + int"
  | Device int "raised + unit"
  | Device_count "raised + int"
  | Get_device_name int "raised + string"
  | Is_available "raised + bool"


subsection \<open>The process\<close>

text \<open>
  What one run of the script builds up: the texts handed to \<^verbatim>\<open>print\<close>, one list element
  per call of \<^verbatim>\<open>print\<close> (each reaches the standard output followed by a newline), the log
  of the calls made into the runtime, and the runtime's state.
\<close>

record 's process =
  stdout :: "string list"
  calls :: "event list"
  runtime :: 's

definition start :: "'s \<Rightarrow> 's process" where
  "start s = \<lparr>stdout = [], calls = [], runtime = s\<rparr>"

definition print :: "string \<Rightarrow> 's process \<Rightarrow> 's process" where
  "print text p = p\<lparr>stdout := stdout p @ [text]\<rparr>"

definition rendered :: "string list \<Rightarrow> string" where
  "rendered out = concat (map (\<lambda>text. text @ [CHR 0x0A]) out)"

definition invoke :: "('s \<Rightarrow> 'r \<times> 's) \<Rightarrow> ('r \<Rightarrow> event) \<Rightarrow> 's process \<Rightarrow> 'r \<times> 's process" where
  "invoke operation ev p =
     (case operation (runtime p) of
        (r, s') \<Rightarrow> (r, p\<lparr>calls := calls p @ [ev r], runtime := s'\<rparr>))"

text \<open>
  Sequencing inside the \<^verbatim>\<open>try\<close> block: a statement that raised skips the statements
  after it, and the raised object travels on with the process as it then stands.
\<close>

fun and_then ::
  "(raised + 'a) \<times> 'p \<Rightarrow> ('a \<Rightarrow> 'p \<Rightarrow> (raised + 'b) \<times> 'p) \<Rightarrow> (raised + 'b) \<times> 'p" where
  "and_then (Inl ex, p) rest = (Inl ex, p)"
| "and_then (Inr v, p) rest = rest v p"

subsection \<open>Formatting an integer\<close>

text \<open>
  \<^verbatim>\<open>f"{device_id}"\<close> on a Python \<^verbatim>\<open>int\<close>: the decimal digits, with a leading minus sign
  for a negative number.
\<close>

definition digit_char :: "nat \<Rightarrow> char" where
  "digit_char n = ''0123456789'' ! n"

fun str_nat :: "nat \<Rightarrow> string" where
  "str_nat n =
     (if n < 10 then [digit_char n] else str_nat (n div 10) @ [digit_char (n mod 10)])"

declare str_nat.simps [simp del]

definition str_int :: "int \<Rightarrow> string" where
  "str_int i = (if i < 0 then CHR ''-'' # str_nat (nat (- i)) else str_nat (nat i))"

subsection \<open>The script\<close>

text \<open>The body of the \<^verbatim>\<open>try\<close> block, statement by statement.\<close>

definition try_body :: "'s torch \<Rightarrow> 's process \<Rightarrow> (raised + unit) \<times> 's process" where
  "try_body torch p0 =
     and_then (invoke (import_torch torch) Import_torch p0) (\<lambda>_ p.
     and_then (invoke (current_device torch) Current_device p) (\<lambda>device_id p.
     let p = print (''Current device id '' @ str_int device_id) p in
     and_then (invoke (device torch device_id) (Device device_id) p) (\<lambda>_ p.
     and_then (invoke (device_count torch) Device_count p) (\<lambda>device_count p.
     let p = print (''Total number of available-cuda GPUs '' @ str_int device_count) p in
     and_then (invoke (get_device_name torch device_id) (Get_device_name device_id) p)
       (\<lambda>device_name p.
     let p = print (''The name of the current device '' @ device_name) p in
     and_then (invoke (is_available torch) Is_available p) (\<lambda>available p.
     if available then (Inr (), print ''Success'' p)
     else (Inr (), print ''Error'' p)))))))"

text \<open>
  The whole script. The \<^verbatim>\<open>except Exception as ex\<close> clause handles a raised
  object that is an instance of \<^verbatim>\<open>Exception\<close> and lets any other pass. The result is
  \<open>None\<close> when the script runs to its end, and \<open>Some ex\<close> when \<open>ex\<close> leaves it uncaught.
\<close>

definition except_Exception :: "raised \<Rightarrow> 's process \<Rightarrow> raised option \<times> 's process" where
  "except_Exception ex p =
     (if is_Exception ex
      then (None, print (''Cuda is not properly installed: '' @ str ex) p)
      else (Some ex, p))"

definition check_for_cuda :: "'s torch \<Rightarrow> 's process \<Rightarrow> raised option \<times> 's process" where
  "check_for_cuda torch p0 =
     (case try_body torch p0 of
        (Inr _, p) \<Rightarrow> (None, p)
      | (Inl ex, p) \<Rightarrow> except_Exception ex p)"

subsection \<open>Mock runtimes\<close>

text \<open>
  The runtimes of the specification's testable properties. Their state is the index of
  the selected device; \<open>device i\<close> selects \<open>i\<close>, every query leaves the state alone.
\<close>

definition mock_gpu :: "bool \<Rightarrow> int torch" where
  "mock_gpu available =
     \<lparr>import_torch = (\<lambda>s. (Inr (), s)),
      current_device = (\<lambda>s. (Inr s, s)),
      device = (\<lambda>i s. (Inr (), i)),
      device_count = (\<lambda>s. (Inr 1, s)),
      get_device_name = (\<lambda>i s. (Inr ''Mock GPU'', s)),
      is_available = (\<lambda>s. (Inr available, s))\<rparr>"

text \<open>
  A runtime whose call number \<open>k\<close> (0 the import, 1 to 5 the calls in the order the
  script makes them) raises \<open>ex\<close>, and whose other calls answer as \<open>mock_gpu True\<close>.
\<close>

definition mock_raising :: "nat \<Rightarrow> raised \<Rightarrow> int torch" where
  "mock_raising k ex =
     \<lparr>import_torch = (\<lambda>s. (if k = 0 then Inl ex else Inr (), s)),
      current_device = (\<lambda>s. (if k = 1 then Inl ex else Inr s, s)),
      device = (\<lambda>i s. if k = 2 then (Inl ex, s) else (Inr (), i)),
      device_count = (\<lambda>s. (if k = 3 then Inl ex else Inr 1, s)),
      get_device_name = (\<lambda>i s. (if k = 4 then Inl ex else Inr ''Mock GPU'', s)),
      is_available = (\<lambda>s. (if k = 5 then Inl ex else Inr True, s))\<rparr>"

text \<open>
  A runtime that answers the device-count query with \<open>c'\<close> and is otherwise \<open>t\<close>: the
  query's effect on the state stays that of \<open>t\<close>.
\<close>

definition with_device_count :: "int \<Rightarrow> 's torch \<Rightarrow> 's torch" where
  "with_device_count c' t = t\<lparr>device_count := \<lambda>s. (Inr c', snd (device_count t s))\<rparr>"

text \<open>
  A runtime that keeps its own record: each operation of \<open>recording t\<close> does what the
  operation of \<open>t\<close> does and appends, to a list held in the runtime's state, the argument
  it was called with and its answer. \<open>received t s0\<close> is what the runtime has recorded
  after one run of the script from \<open>s0\<close>: the calls as the runtime received them.
\<close>

definition record_call ::
  "('s \<Rightarrow> 'r \<times> 's) \<Rightarrow> ('r \<Rightarrow> event) \<Rightarrow> 's \<times> event list \<Rightarrow> 'r \<times> ('s \<times> event list)" where
  "record_call operation ev sl =
     (case operation (fst sl) of (r, s') \<Rightarrow> (r, (s', snd sl @ [ev r])))"

definition recording :: "'s torch \<Rightarrow> ('s \<times> event list) torch" where
  "recording t =
     \<lparr>import_torch = record_call (import_torch t) Import_torch,
      current_device = record_call (current_device t) Current_device,
      device = (\<lambda>i. record_call (device t i) (Device i)),
      device_count = record_call (device_count t) Device_count,
      get_device_name = (\<lambda>i. record_call (get_device_name t i) (Get_device_name i)),
      is_available = record_call (is_available t) Is_available\<rparr>"

definition received :: "'s torch \<Rightarrow> 's \<Rightarrow> event list" where
  "received t s0 = snd (runtime (snd (check_for_cuda (recording t) (start (s0, [])))))"

section \<open>Properties\<close>

subsection \<open>Auxiliary facts\<close>

lemma str_int_0: "str_int 0 = ''0''"
  by (simp add: str_int_def str_nat.simps digit_char_def)

lemma str_int_1: "str_int 1 = ''1''"
  by (simp add: str_int_def str_nat.simps digit_char_def)

lemmas script_defs =
  check_for_cuda_def try_body_def start_def invoke_def print_def

lemma raises_at_import:
  assumes "import_torch t s0 = (Inl ex, s1)"
  shows "check_for_cuda t (start s0) =
    except_Exception ex \<lparr>stdout = [], calls = [Import_torch (Inl ex)], runtime = s1\<rparr>"
  using assms by (simp add: script_defs)

lemma raises_at_current_device:
  assumes "import_torch t s0 = (Inr (), s1)"
    and "current_device t s1 = (Inl ex, s2)"
  shows "check_for_cuda t (start s0) =
    except_Exception ex
      \<lparr>stdout = [],
       calls = [Import_torch (Inr ()), Current_device (Inl ex)],
       runtime = s2\<rparr>"
  using assms by (simp add: script_defs)

lemma raises_at_device:
  assumes "import_torch t s0 = (Inr (), s1)"
    and "current_device t s1 = (Inr d, s2)"
    and "device t d s2 = (Inl ex, s3)"
  shows "check_for_cuda t (start s0) =
    except_Exception ex
      \<lparr>stdout = [''Current device id '' @ str_int d],
       calls = [Import_torch (Inr ()), Current_device (Inr d), Device d (Inl ex)],
       runtime = s3\<rparr>"
  using assms by (simp add: script_defs)

lemma raises_at_device_count:
  assumes "import_torch t s0 = (Inr (), s1)"
    and "current_device t s1 = (Inr d, s2)"
    and "device t d s2 = (Inr (), s3)"
    and "device_count t s3 = (Inl ex, s4)"
  shows "check_for_cuda t (start s0) =
    except_Exception ex
      \<lparr>stdout = [''Current device id '' @ str_int d],
       calls = [Import_torch (Inr ()), Current_device (Inr d), Device d (Inr ()),
                Device_count (Inl ex)],
       runtime = s4\<rparr>"
  using assms by (simp add: script_defs)

lemma raises_at_get_device_name:
  assumes "import_torch t s0 = (Inr (), s1)"
    and "current_device t s1 = (Inr d, s2)"
    and "device t d s2 = (Inr (), s3)"
    and "device_count t s3 = (Inr c, s4)"
    and "get_device_name t d s4 = (Inl ex, s5)"
  shows "check_for_cuda t (start s0) =
    except_Exception ex
      \<lparr>stdout = [''Current device id '' @ str_int d,
                 ''Total number of available-cuda GPUs '' @ str_int c],
       calls = [Import_torch (Inr ()), Current_device (Inr d), Device d (Inr ()),
                Device_count (Inr c), Get_device_name d (Inl ex)],
       runtime = s5\<rparr>"
  using assms by (simp add: script_defs)

lemma raises_at_is_available:
  assumes "import_torch t s0 = (Inr (), s1)"
    and "current_device t s1 = (Inr d, s2)"
    and "device t d s2 = (Inr (), s3)"
    and "device_count t s3 = (Inr c, s4)"
    and "get_device_name t d s4 = (Inr n, s5)"
    and "is_available t s5 = (Inl ex, s6)"
  shows "check_for_cuda t (start s0) =
    except_Exception ex
      \<lparr>stdout = [''Current device id '' @ str_int d,
                 ''Total number of available-cuda GPUs '' @ str_int c,
                 ''The name of the current device '' @ n],
       calls = [Import_torch (Inr ()), Current_device (Inr d), Device d (Inr ()),
                Device_count (Inr c), Get_device_name d (Inr n), Is_available (Inl ex)],
       runtime = s6\<rparr>"
  using assms by (simp add: script_defs)

lemma runs_to_end:
  assumes "import_torch t s0 = (Inr (), s1)"
    and "current_device t s1 = (Inr d, s2)"
    and "device t d s2 = (Inr (), s3)"
    and "device_count t s3 = (Inr c, s4)"
    and "get_device_name t d s4 = (Inr n, s5)"
    and "is_available t s5 = (Inr b, s6)"
  shows "check_for_cuda t (start s0) =
    (None,
      \<lparr>stdout = [''Current device id '' @ str_int d,
                 ''Total number of available-cuda GPUs '' @ str_int c,
                 ''The name of the current device '' @ n,
                 if b then ''Success'' else ''Error''],
       calls = [Import_torch (Inr ()), Current_device (Inr d), Device d (Inr ()),
                Device_count (Inr c), Get_device_name d (Inr n), Is_available (Inr b)],
       runtime = s6\<rparr>)"
  using assms by (simp add: script_defs)

lemma caught:
  "is_Exception ex \<Longrightarrow>
   except_Exception ex p = (None, p\<lparr>stdout := stdout p @ [''Cuda is not properly installed: '' @ str ex]\<rparr>)"
  by (simp add: except_Exception_def print_def)

lemma passes_uncaught:
  "\<not> is_Exception ex \<Longrightarrow> except_Exception ex p = (Some ex, p)"
  by (simp add: except_Exception_def)

lemma run_cases [case_names import current_device device device_count get_device_name
    is_available ends]:
  obtains
    ex s1 where "import_torch t s0 = (Inl ex, s1)"
  | s1 ex s2 where "import_torch t s0 = (Inr (), s1)" "current_device t s1 = (Inl ex, s2)"
  | s1 d s2 ex s3 where "import_torch t s0 = (Inr (), s1)" "current_device t s1 = (Inr d, s2)"
      "device t d s2 = (Inl ex, s3)"
  | s1 d s2 s3 ex s4 where "import_torch t s0 = (Inr (), s1)" "current_device t s1 = (Inr d, s2)"
      "device t d s2 = (Inr (), s3)" "device_count t s3 = (Inl ex, s4)"
  | s1 d s2 s3 c s4 ex s5 where "import_torch t s0 = (Inr (), s1)"
      "current_device t s1 = (Inr d, s2)" "device t d s2 = (Inr (), s3)"
      "device_count t s3 = (Inr c, s4)" "get_device_name t d s4 = (Inl ex, s5)"
  | s1 d s2 s3 c s4 n s5 ex s6 where "import_torch t s0 = (Inr (), s1)"
      "current_device t s1 = (Inr d, s2)" "device t d s2 = (Inr (), s3)"
      "device_count t s3 = (Inr c, s4)" "get_device_name t d s4 = (Inr n, s5)"
      "is_available t s5 = (Inl ex, s6)"
  | s1 d s2 s3 c s4 n s5 b s6 where "import_torch t s0 = (Inr (), s1)"
      "current_device t s1 = (Inr d, s2)" "device t d s2 = (Inr (), s3)"
      "device_count t s3 = (Inr c, s4)" "get_device_name t d s4 = (Inr n, s5)"
      "is_available t s5 = (Inr b, s6)"
proof -
  obtain r1 s1 where 1: "import_torch t s0 = (r1, s1)" by force
  show thesis
  proof (cases r1)
    case (Inl ex)
    with 1 that(1) show thesis by blast
  next
    case Inr
    with 1 have 1: "import_torch t s0 = (Inr (), s1)" by simp
    obtain r2 s2 where 2: "current_device t s1 = (r2, s2)" by force
    show thesis
    proof (cases r2)
      case (Inl ex)
      with 1 2 that(2) show thesis by blast
    next
      case (Inr d)
      with 2 have 2: "current_device t s1 = (Inr d, s2)" by simp
      obtain r3 s3 where 3: "device t d s2 = (r3, s3)" by force
      show thesis
      proof (cases r3)
        case (Inl ex)
        with 1 2 3 that(3) show thesis by blast
      next
        case Inr
        with 3 have 3: "device t d s2 = (Inr (), s3)" by simp
        obtain r4 s4 where 4: "device_count t s3 = (r4, s4)" by force
        show thesis
        proof (cases r4)
          case (Inl ex)
          with 1 2 3 4 that(4) show thesis by blast
        next
          case (Inr c)
          with 4 have 4: "device_count t s3 = (Inr c, s4)" by simp
          obtain r5 s5 where 5: "get_device_name t d s4 = (r5, s5)" by force
          show thesis
          proof (cases r5)
            case (Inl ex)
            with 1 2 3 4 5 that(5) show thesis by blast
          next
            case (Inr n)
            with 5 have 5: "get_device_name t d s4 = (Inr n, s5)" by simp
            obtain r6 s6 where 6: "is_available t s5 = (r6, s6)" by force
            show thesis
            proof (cases r6)
              case (Inl ex)
              with 1 2 3 4 5 6 that(6) show thesis by blast
            next
              case (Inr b)
              with 1 2 3 4 5 6 that(7) show thesis by blast
            qed
          qed
        qed
      qed
    qed
  qed
qed

lemma calls_except_Exception [simp]: "calls (snd (except_Exception ex p)) = calls p"
  by (simp add: except_Exception_def print_def)

lemma runtime_except_Exception [simp]: "runtime (snd (except_Exception ex p)) = runtime p"
  by (simp add: except_Exception_def print_def)

lemma recording_simps:
  "import_torch t s = (r1, s') \<Longrightarrow>
     import_torch (recording t) (s, l) = (r1, (s', l @ [Import_torch r1]))"
  "current_device t s = (r2, s') \<Longrightarrow>
     current_device (recording t) (s, l) = (r2, (s', l @ [Current_device r2]))"
  "device t i s = (r3, s') \<Longrightarrow>
     device (recording t) i (s, l) = (r3, (s', l @ [Device i r3]))"
  "device_count t s = (r4, s') \<Longrightarrow>
     device_count (recording t) (s, l) = (r4, (s', l @ [Device_count r4]))"
  "get_device_name t i s = (r5, s') \<Longrightarrow>
     get_device_name (recording t) i (s, l) = (r5, (s', l @ [Get_device_name i r5]))"
  "is_available t s = (r6, s') \<Longrightarrow>
     is_available (recording t) (s, l) = (r6, (s', l @ [Is_available r6]))"
  by (simp_all add: recording_def record_call_def)

lemma received_is_log:
  "received t s0 = calls (snd (check_for_cuda t (start s0))) \<and>
   fst (runtime (snd (check_for_cuda (recording t) (start (s0, []))))) =
     runtime (snd (check_for_cuda t (start s0))) \<and>
   stdout (snd (check_for_cuda (recording t) (start (s0, [])))) =
     stdout (snd (check_for_cuda t (start s0))) \<and>
   fst (check_for_cuda (recording t) (start (s0, []))) = fst (check_for_cuda t (start s0))"
proof (cases rule: run_cases [of t s0])
  case import
  note a = import
  note b = a [THEN recording_simps(1), of "[]"]
  show ?thesis
    unfolding received_def raises_at_import [OF a] raises_at_import [OF b]
    by (simp add: except_Exception_def print_def)
next
  case current_device
  note a = current_device
  note b = a(1) [THEN recording_simps(1), of "[]"] a(2) [THEN recording_simps(2)]
  show ?thesis
    unfolding received_def raises_at_current_device [OF a] raises_at_current_device [OF b]
    by (simp add: except_Exception_def print_def)
next
  case device
  note a = device
  note b = a(1) [THEN recording_simps(1), of "[]"] a(2) [THEN recording_simps(2)]
    a(3) [THEN recording_simps(3)]
  show ?thesis
    unfolding received_def raises_at_device [OF a] raises_at_device [OF b]
    by (simp add: except_Exception_def print_def)
next
  case device_count
  note a = device_count
  note b = a(1) [THEN recording_simps(1), of "[]"] a(2) [THEN recording_simps(2)]
    a(3) [THEN recording_simps(3)] a(4) [THEN recording_simps(4)]
  show ?thesis
    unfolding received_def raises_at_device_count [OF a] raises_at_device_count [OF b]
    by (simp add: except_Exception_def print_def)
next
  case get_device_name
  note a = get_device_name
  note b = a(1) [THEN recording_simps(1), of "[]"] a(2) [THEN recording_simps(2)]
    a(3) [THEN recording_simps(3)] a(4) [THEN recording_simps(4)]
    a(5) [THEN recording_simps(5)]
  show ?thesis
    unfolding received_def raises_at_get_device_name [OF a] raises_at_get_device_name [OF b]
    by (simp add: except_Exception_def print_def)
next
  case is_available
  note a = is_available
  note b = a(1) [THEN recording_simps(1), of "[]"] a(2) [THEN recording_simps(2)]
    a(3) [THEN recording_simps(3)] a(4) [THEN recording_simps(4)]
    a(5) [THEN recording_simps(5)] a(6) [THEN recording_simps(6)]
  show ?thesis
    unfolding received_def raises_at_is_available [OF a] raises_at_is_available [OF b]
    by (simp add: except_Exception_def print_def)
next
  case ends
  note a = ends
  note b = a(1) [THEN recording_simps(1), of "[]"] a(2) [THEN recording_simps(2)]
    a(3) [THEN recording_simps(3)] a(4) [THEN recording_simps(4)]
    a(5) [THEN recording_simps(5)] a(6) [THEN recording_simps(6)]
  show ?thesis
    unfolding received_def runs_to_end [OF a] runs_to_end [OF b]
    by simp
qed

subsection \<open>The claims\<close>

text \<open>
  C1 (happy path). When the import and the set-device call return, the current-device
  query returns 0, the device count is 1, the device name is "Mock GPU" and the
  availability query returns true, the script runs to its end having printed exactly
  the four lines "Current device id 0", "Total number of available-cuda GPUs 1",
  "The name of the current device Mock GPU" and "Success", in that order.
\<close>

theorem happy_path:
  assumes "import_torch t s0 = (Inr (), s1)"
    and "current_device t s1 = (Inr 0, s2)"
    and "device t 0 s2 = (Inr (), s3)"
    and "device_count t s3 = (Inr 1, s4)"
    and "get_device_name t 0 s4 = (Inr ''Mock GPU'', s5)"
    and "is_available t s5 = (Inr True, s6)"
  shows "fst (check_for_cuda t (start s0)) = None \<and>
         stdout (snd (check_for_cuda t (start s0))) =
           [''Current device id 0'',
            ''Total number of available-cuda GPUs 1'',
            ''The name of the current device Mock GPU'',
            ''Success'']"
  using assms
  by (simp add: check_for_cuda_def try_body_def start_def invoke_def print_def
      str_int_0 str_int_1)

theorem happy_path_witness:
  "fst (check_for_cuda (mock_gpu True) (start 0)) = None \<and>
   stdout (snd (check_for_cuda (mock_gpu True) (start 0))) =
     [''Current device id 0'',
      ''Total number of available-cuda GPUs 1'',
      ''The name of the current device Mock GPU'',
      ''Success'']"
  using happy_path [of "mock_gpu True" 0 0 0 0 0 0 0]
  by (simp add: mock_gpu_def)

text \<open>
  C2 (failure handling). Whichever of the calls raises an error \<open>ex\<close>, an instance of
  \<^verbatim>\<open>Exception\<close> (the import or one of the five calls into the runtime), the script makes
  no further call (the log ends with the call that raised), keeps the lines printed
  before it, prints exactly one more line, "Cuda is not properly installed: " followed
  by \<open>str ex\<close>, and ends without an uncaught exception (the result is \<open>None\<close>).
\<close>

theorem failure_handling:
  assumes "is_Exception ex"
  shows
   "(import_torch t s0 = (Inl ex, s1) \<longrightarrow>
       check_for_cuda t (start s0) =
         (None,
          \<lparr>stdout = [''Cuda is not properly installed: '' @ str ex],
           calls = [Import_torch (Inl ex)],
           runtime = s1\<rparr>)) \<and>
    (import_torch t s0 = (Inr (), s1) \<and> current_device t s1 = (Inl ex, s2) \<longrightarrow>
       check_for_cuda t (start s0) =
         (None,
          \<lparr>stdout = [''Cuda is not properly installed: '' @ str ex],
           calls = [Import_torch (Inr ()), Current_device (Inl ex)],
           runtime = s2\<rparr>)) \<and>
    (import_torch t s0 = (Inr (), s1) \<and> current_device t s1 = (Inr d, s2) \<and>
     device t d s2 = (Inl ex, s3) \<longrightarrow>
       check_for_cuda t (start s0) =
         (None,
          \<lparr>stdout = [''Current device id '' @ str_int d,
                     ''Cuda is not properly installed: '' @ str ex],
           calls = [Import_torch (Inr ()), Current_device (Inr d), Device d (Inl ex)],
           runtime = s3\<rparr>)) \<and>
    (import_torch t s0 = (Inr (), s1) \<and> current_device t s1 = (Inr d, s2) \<and>
     device t d s2 = (Inr (), s3) \<and> device_count t s3 = (Inl ex, s4) \<longrightarrow>
       check_for_cuda t (start s0) =
         (None,
          \<lparr>stdout = [''Current device id '' @ str_int d,
                     ''Cuda is not properly installed: '' @ str ex],
           calls = [Import_torch (Inr ()), Current_device (Inr d), Device d (Inr ()),
                    Device_count (Inl ex)],
           runtime = s4\<rparr>)) \<and>
    (import_torch t s0 = (Inr (), s1) \<and> current_device t s1 = (Inr d, s2) \<and>
     device t d s2 = (Inr (), s3) \<and> device_count t s3 = (Inr c, s4) \<and>
     get_device_name t d s4 = (Inl ex, s5) \<longrightarrow>
       check_for_cuda t (start s0) =
         (None,
          \<lparr>stdout = [''Current device id '' @ str_int d,
                     ''Total number of available-cuda GPUs '' @ str_int c,
                     ''Cuda is not properly installed: '' @ str ex],
           calls = [Import_torch (Inr ()), Current_device (Inr d), Device d (Inr ()),
                    Device_count (Inr c), Get_device_name d (Inl ex)],
           runtime = s5\<rparr>)) \<and>
    (import_torch t s0 = (Inr (), s1) \<and> current_device t s1 = (Inr d, s2) \<and>
     device t d s2 = (Inr (), s3) \<and> device_count t s3 = (Inr c, s4) \<and>
     get_device_name t d s4 = (Inr n, s5) \<and> is_available t s5 = (Inl ex, s6) \<longrightarrow>
       check_for_cuda t (start s0) =
         (None,
          \<lparr>stdout = [''Current device id '' @ str_int d,
                     ''Total number of available-cuda GPUs '' @ str_int c,
                     ''The name of the current device '' @ n,
                     ''Cuda is not properly installed: '' @ str ex],
           calls = [Import_torch (Inr ()), Current_device (Inr d), Device d (Inr ()),
                    Device_count (Inr c), Get_device_name d (Inr n), Is_available (Inl ex)],
           runtime = s6\<rparr>))"
  using assms
  by (simp add: raises_at_import raises_at_current_device raises_at_device
      raises_at_device_count raises_at_get_device_name raises_at_is_available caught)

theorem failure_handling_witness:
  "is_Exception (Raised True ''no such module'') \<and>
   check_for_cuda (mock_raising 0 (Raised True ''no such module'')) (start 0) =
     (None,
      \<lparr>stdout = [''Cuda is not properly installed: no such module''],
       calls = [Import_torch (Inl (Raised True ''no such module''))],
       runtime = 0\<rparr>) \<and>
   check_for_cuda (mock_raising 2 (Raised True ''invalid device ordinal'')) (start 0) =
     (None,
      \<lparr>stdout = [''Current device id 0'',
                 ''Cuda is not properly installed: invalid device ordinal''],
       calls = [Import_torch (Inr ()), Current_device (Inr 0),
                Device 0 (Inl (Raised True ''invalid device ordinal''))],
       runtime = 0\<rparr>) \<and>
   check_for_cuda (mock_raising 3 (Raised True ''no driver'')) (start 0) =
     (None,
      \<lparr>stdout = [''Current device id 0'',
                 ''Cuda is not properly installed: no driver''],
       calls = [Import_torch (Inr ()), Current_device (Inr 0), Device 0 (Inr ()),
                Device_count (Inl (Raised True ''no driver''))],
       runtime = 0\<rparr>) \<and>
   check_for_cuda (mock_raising 1 (Raised True ''no driver'')) (start 0) =
     (None,
      \<lparr>stdout = [''Cuda is not properly installed: no driver''],
       calls = [Import_torch (Inr ()), Current_device (Inl (Raised True ''no driver''))],
       runtime = 0\<rparr>) \<and>
   check_for_cuda (mock_raising 4 (Raised True ''index out of range'')) (start 0) =
     (None,
      \<lparr>stdout = [''Current device id 0'',
                 ''Total number of available-cuda GPUs 1'',
                 ''Cuda is not properly installed: index out of range''],
       calls = [Import_torch (Inr ()), Current_device (Inr 0), Device 0 (Inr ()),
                Device_count (Inr 1),
                Get_device_name 0 (Inl (Raised True ''index out of range''))],
       runtime = 0\<rparr>) \<and>
   check_for_cuda (mock_raising 5 (Raised True ''no driver'')) (start 0) =
     (None,
      \<lparr>stdout = [''Current device id 0'',
                 ''Total number of available-cuda GPUs 1'',
                 ''The name of the current device Mock GPU'',
                 ''Cuda is not properly installed: no driver''],
       calls = [Import_torch (Inr ()), Current_device (Inr 0), Device 0 (Inr ()),
                Device_count (Inr 1), Get_device_name 0 (Inr ''Mock GPU''),
                Is_available (Inl (Raised True ''no driver''))],
       runtime = 0\<rparr>)"
  using failure_handling [of "Raised True ''no such module''"
      "mock_raising 0 (Raised True ''no such module'')" 0 0 0 0 0 0 0 0 "[]" 0]
    failure_handling [of "Raised True ''invalid device ordinal''"
      "mock_raising 2 (Raised True ''invalid device ordinal'')" 0 0 0 0 0 0 0 0 "[]" 0]
    failure_handling [of "Raised True ''no driver''"
      "mock_raising 3 (Raised True ''no driver'')" 0 0 0 0 0 0 0 0 "[]" 0]
    failure_handling [of "Raised True ''no driver''"
      "mock_raising 1 (Raised True ''no driver'')" 0 0 0 0 0 0 0 0 "[]" 0]
    failure_handling [of "Raised True ''index out of range''"
      "mock_raising 4 (Raised True ''index out of range'')" 0 0 0 0 0 0 1 0 "[]" 0]
    failure_handling [of "Raised True ''no driver''"
      "mock_raising 5 (Raised True ''no driver'')" 0 0 0 0 0 0 1 0 "''Mock GPU''" 0]
  by (simp add: mock_raising_def str_int_0 str_int_1)

text \<open>
  C3 (unavailable). When the first calls return and the availability query returns
  false, the \<^verbatim>\<open>try\<close> block completes (the \<^verbatim>\<open>except\<close> clause is not entered), and
  the script prints the same three status lines as a run in which the same values are
  followed by availability true, then "Error" where that run prints "Success".
\<close>

theorem unavailable:
  assumes "import_torch t s0 = (Inr (), s1)"
    and "current_device t s1 = (Inr d, s2)"
    and "device t d s2 = (Inr (), s3)"
    and "device_count t s3 = (Inr c, s4)"
    and "get_device_name t d s4 = (Inr n, s5)"
    and "is_available t s5 = (Inr False, s6)"
    and "import_torch t' s0' = (Inr (), s1')"
    and "current_device t' s1' = (Inr d, s2')"
    and "device t' d s2' = (Inr (), s3')"
    and "device_count t' s3' = (Inr c, s4')"
    and "get_device_name t' d s4' = (Inr n, s5')"
    and "is_available t' s5' = (Inr True, s6')"
  shows "fst (try_body t (start s0)) = Inr () \<and>
         fst (check_for_cuda t (start s0)) = None \<and>
         stdout (snd (check_for_cuda t (start s0))) =
           [''Current device id '' @ str_int d,
            ''Total number of available-cuda GPUs '' @ str_int c,
            ''The name of the current device '' @ n,
            ''Error''] \<and>
         stdout (snd (check_for_cuda t' (start s0'))) =
           [''Current device id '' @ str_int d,
            ''Total number of available-cuda GPUs '' @ str_int c,
            ''The name of the current device '' @ n,
            ''Success'']"
proof -
  have "fst (try_body t (start s0)) = Inr ()"
    using assms(1-6) by (simp add: try_body_def start_def invoke_def print_def)
  moreover note runs_to_end [OF assms(1-6)] runs_to_end [OF assms(7-12)]
  ultimately show ?thesis by simp
qed

theorem unavailable_witness:
  "fst (try_body (mock_gpu False) (start 0)) = Inr () \<and>
   fst (check_for_cuda (mock_gpu False) (start 0)) = None \<and>
   stdout (snd (check_for_cuda (mock_gpu False) (start 0))) =
     [''Current device id 0'',
      ''Total number of available-cuda GPUs 1'',
      ''The name of the current device Mock GPU'',
      ''Error''] \<and>
   stdout (snd (check_for_cuda (mock_gpu True) (start 0))) =
     [''Current device id 0'',
      ''Total number of available-cuda GPUs 1'',
      ''The name of the current device Mock GPU'',
      ''Success'']"
  using unavailable [of "mock_gpu False" 0 0 0 0 0 1 0 "''Mock GPU''" 0 0
      "mock_gpu True" 0 0 0 0 0 0 0]
  by (simp add: mock_gpu_def str_int_0 str_int_1)

text \<open>
  C4 (runtime absent). When the import or the current-device query, the first operation
  either way, raises an error (an instance of \<^verbatim>\<open>Exception\<close>) with text \<open>m\<close>, the
  standard output, as lines and as characters, is the one line
  "Cuda is not properly installed: " followed by \<open>m\<close>, and nothing before it.
\<close>

theorem runtime_absent:
  assumes "is_Exception ex" and "str ex = m"
    and "import_torch t s0 = (Inl ex, s1) \<or>
         import_torch t s0 = (Inr (), s1) \<and> current_device t s1 = (Inl ex, s2)"
  shows "fst (check_for_cuda t (start s0)) = None \<and>
         stdout (snd (check_for_cuda t (start s0))) =
           [''Cuda is not properly installed: '' @ m] \<and>
         rendered (stdout (snd (check_for_cuda t (start s0)))) =
           ''Cuda is not properly installed: '' @ m @ [CHR 0x0A]"
  using assms
  by (auto simp: raises_at_import raises_at_current_device caught rendered_def)

theorem runtime_absent_witness:
  "is_Exception (Raised True ''no such module'') \<and>
   fst (check_for_cuda (mock_raising 0 (Raised True ''no such module'')) (start 0)) = None \<and>
   stdout (snd (check_for_cuda (mock_raising 0 (Raised True ''no such module'')) (start 0))) =
     [''Cuda is not properly installed: no such module''] \<and>
   stdout (snd (check_for_cuda (mock_raising 1 (Raised True ''no such module'')) (start 0))) =
     [''Cuda is not properly installed: no such module'']"
  using runtime_absent [of "Raised True ''no such module''" "''no such module''"
      "mock_raising 0 (Raised True ''no such module'')" 0 0 0]
    runtime_absent [of "Raised True ''no such module''" "''no such module''"
      "mock_raising 1 (Raised True ''no such module'')" 0 0 0]
  by (simp add: mock_raising_def)

text \<open>
  C5 (no devices). When the current-device query, the set-device call and the
  device-count query return and the device-name query raises an error (an instance of
  \<^verbatim>\<open>Exception\<close>), the standard
  output is the "Current device id" line, the "Total number of available-cuda GPUs" line
  and the failure line with that exception's text; neither "Success" nor "Error" is
  printed.
\<close>

theorem device_name_raises:
  assumes "import_torch t s0 = (Inr (), s1)"
    and "current_device t s1 = (Inr d, s2)"
    and "device t d s2 = (Inr (), s3)"
    and "device_count t s3 = (Inr c, s4)"
    and "get_device_name t d s4 = (Inl ex, s5)"
    and "is_Exception ex"
  shows "fst (check_for_cuda t (start s0)) = None \<and>
         stdout (snd (check_for_cuda t (start s0))) =
           [''Current device id '' @ str_int d,
            ''Total number of available-cuda GPUs '' @ str_int c,
            ''Cuda is not properly installed: '' @ str ex] \<and>
         ''Success'' \<notin> set (stdout (snd (check_for_cuda t (start s0)))) \<and>
         ''Error'' \<notin> set (stdout (snd (check_for_cuda t (start s0))))"
  using assms(6) by (simp add: raises_at_get_device_name [OF assms(1-5)] caught)

theorem device_name_raises_witness:
  "is_Exception (Raised True ''index out of range'') \<and>
   fst (check_for_cuda (mock_raising 4 (Raised True ''index out of range'')) (start 0)) = None \<and>
   stdout (snd (check_for_cuda (mock_raising 4 (Raised True ''index out of range'')) (start 0))) =
     [''Current device id 0'',
      ''Total number of available-cuda GPUs 1'',
      ''Cuda is not properly installed: index out of range'']"
  using device_name_raises [of "mock_raising 4 (Raised True ''index out of range'')"
      0 0 0 0 0 1 0 "Raised True ''index out of range''" 0]
  by (simp add: mock_raising_def str_int_0 str_int_1)

text \<open>
  C6. In every run that reaches the set-device call (the import returned and the
  current-device query returned \<open>d\<close>), with any runtime: the third call the runtime
  receives is the set-device call with argument \<open>d\<close>, the value the query just before it
  returned, and its answer is that of \<open>device t d\<close>; the runtime receives no set-device
  call with another argument, and every device-name query it receives has argument
  \<open>d\<close> too; when the run goes on to the device-name query, that query is the fifth call
  received, with argument \<open>d\<close> and the answer of \<open>get_device_name t d\<close>. The script's own
  log agrees with what the runtime received.
\<close>

theorem set_device_argument:
  assumes "import_torch t s0 = (Inr (), s1)"
    and "current_device t s1 = (Inr d, s2)"
    and "device t d s2 = (r, s3)"
  shows "take 3 (received t s0) =
           [Import_torch (Inr ()), Current_device (Inr d), Device d r] \<and>
         (\<forall>a r'. Device a r' \<in> set (received t s0) \<longrightarrow> a = d \<and> r' = r) \<and>
         (\<forall>b r'. Get_device_name b r' \<in> set (received t s0) \<longrightarrow> b = d) \<and>
         (r = Inr () \<and> device_count t s3 = (Inr c, s4) \<and>
          get_device_name t d s4 = (r5, s5) \<longrightarrow>
            take 5 (received t s0) =
              [Import_torch (Inr ()), Current_device (Inr d), Device d (Inr ()),
               Device_count (Inr c), Get_device_name d r5]) \<and>
         calls (snd (check_for_cuda t (start s0))) = received t s0"
proof -
  note log = received_is_log [of t s0, THEN conjunct1]
  show ?thesis
  proof (cases rule: run_cases [of t s0])
    case import
    with assms show ?thesis by simp
  next
    case current_device
    with assms show ?thesis by simp
  next
    case device
    note run = raises_at_device [OF device]
    from assms device show ?thesis
      unfolding log run by auto
  next
    case device_count
    note run = raises_at_device_count [OF device_count]
    from assms device_count show ?thesis
      unfolding log run by auto
  next
    case get_device_name
    note run = raises_at_get_device_name [OF get_device_name]
    from assms get_device_name show ?thesis
      unfolding log run by auto
  next
    case is_available
    note run = raises_at_is_available [OF is_available]
    from assms is_available show ?thesis
      unfolding log run by auto
  next
    case ends
    note run = runs_to_end [OF ends]
    from assms ends show ?thesis
      unfolding log run by auto
  qed
qed

theorem set_device_argument_witness:
  "import_torch (mock_gpu True) 3 = (Inr (), 3) \<and>
   current_device (mock_gpu True) 3 = (Inr 3, 3) \<and>
   device (mock_gpu True) 3 3 = (Inr (), 3) \<and>
   take 3 (received (mock_gpu True) 3) =
     [Import_torch (Inr ()), Current_device (Inr 3), Device 3 (Inr ())] \<and>
   take 5 (received (mock_gpu True) 3) =
     [Import_torch (Inr ()), Current_device (Inr 3), Device 3 (Inr ()),
      Device_count (Inr 1), Get_device_name 3 (Inr ''Mock GPU'')]"
proof -
  have h: "import_torch (mock_gpu True) 3 = (Inr (), 3)"
    "current_device (mock_gpu True) 3 = (Inr 3, 3)"
    "device (mock_gpu True) 3 3 = (Inr (), 3)"
    and k: "device_count (mock_gpu True) 3 = (Inr 1, 3)"
    "get_device_name (mock_gpu True) 3 3 = (Inr ''Mock GPU'', 3)"
    by (simp_all add: mock_gpu_def)
  from set_device_argument [OF h, of 1 3 "Inr ''Mock GPU''" 3] h k
  show ?thesis by simp
qed



text \<open>
  C8 (idempotence). For a runtime whose import and four queries leave its state as it
  was, and whose set-device call is a no-op on the device the current-device query
  reports: a run leaves the runtime in the state it found, and a second run, started
  from the state the first one left, ends the same way and writes the same characters
  to the standard output. The script has no state of its own: a run starts from the
  runtime's state alone.
\<close>

theorem idempotent:
  assumes "\<forall>s. snd (import_torch t s) = s"
    and "\<forall>s. snd (current_device t s) = s"
    and "\<forall>s. snd (device_count t s) = s"
    and "\<forall>i s. snd (get_device_name t i s) = s"
    and "\<forall>s. snd (is_available t s) = s"
    and "\<forall>s d. fst (current_device t s) = Inr d \<longrightarrow> snd (device t d s) = s"
  shows "runtime (snd (check_for_cuda t (start s0))) = s0 \<and>
         fst (check_for_cuda t (start (runtime (snd (check_for_cuda t (start s0)))))) =
           fst (check_for_cuda t (start s0)) \<and>
         rendered (stdout (snd (check_for_cuda t
             (start (runtime (snd (check_for_cuda t (start s0)))))))) =
           rendered (stdout (snd (check_for_cuda t (start s0))))"
proof -
  have q1: "import_torch t s = (r, s') \<Longrightarrow> s' = s" for r s s'
    using assms(1) by (metis snd_conv)
  have q2: "current_device t s = (r, s') \<Longrightarrow> s' = s" for r s s'
    using assms(2) by (metis snd_conv)
  have q3: "device_count t s = (r, s') \<Longrightarrow> s' = s" for r s s'
    using assms(3) by (metis snd_conv)
  have q4: "get_device_name t i s = (r, s') \<Longrightarrow> s' = s" for i r s s'
    using assms(4) by (metis snd_conv)
  have q5: "is_available t s = (r, s') \<Longrightarrow> s' = s" for r s s'
    using assms(5) by (metis snd_conv)
  have q6: "current_device t s = (Inr d, s1) \<Longrightarrow> device t d s = (r, s') \<Longrightarrow> s' = s"
    for d r s s1 s'
    using assms(6) by (metis fst_conv snd_conv)
  have "runtime (snd (check_for_cuda t (start s0))) = s0"
  proof (cases rule: run_cases [of t s0])
    case import
    then show ?thesis by (simp add: raises_at_import q1)
  next
    case current_device
    then show ?thesis
      by (simp add: raises_at_current_device) (use current_device q1 q2 in blast)
  next
    case (device s1 d s2 ex s3)
    have "s1 = s0" "s2 = s1" using device q1 q2 by blast+
    moreover have "s3 = s1" using device q2 q6 by blast
    ultimately show ?thesis using device by (simp add: raises_at_device)
  next
    case (device_count s1 d s2 s3 ex s4)
    have "s1 = s0" "s2 = s1" using device_count q1 q2 by blast+
    moreover have "s3 = s1" using device_count q2 q6 by blast
    moreover have "s4 = s3" using device_count q3 by blast
    ultimately show ?thesis using device_count by (simp add: raises_at_device_count)
  next
    case (get_device_name s1 d s2 s3 c s4 ex s5)
    have "s1 = s0" "s2 = s1" using get_device_name q1 q2 by blast+
    moreover have "s3 = s1" using get_device_name q2 q6 by blast
    moreover have "s4 = s3" using get_device_name q3 by blast
    moreover have "s5 = s4" using get_device_name q4 by blast
    ultimately show ?thesis using get_device_name by (simp add: raises_at_get_device_name)
  next
    case (is_available s1 d s2 s3 c s4 n s5 ex s6)
    have "s1 = s0" "s2 = s1" using is_available q1 q2 by blast+
    moreover have "s3 = s1" using is_available q2 q6 by blast
    moreover have "s4 = s3" using is_available q3 by blast
    moreover have "s5 = s4" using is_available q4 by blast
    moreover have "s6 = s5" using is_available q5 by blast
    ultimately show ?thesis using is_available by (simp add: raises_at_is_available)
  next
    case (ends s1 d s2 s3 c s4 n s5 b s6)
    have "s1 = s0" "s2 = s1" using ends q1 q2 by blast+
    moreover have "s3 = s1" using ends q2 q6 by blast
    moreover have "s4 = s3" using ends q3 by blast
    moreover have "s5 = s4" using ends q4 by blast
    moreover have "s6 = s5" using ends q5 by blast
    ultimately show ?thesis using ends by (simp add: runs_to_end)
  qed
  then show ?thesis by simp
qed

theorem idempotent_witness:
  "runtime (snd (check_for_cuda (mock_gpu True) (start 0))) = 0 \<and>
   fst (check_for_cuda (mock_gpu True)
       (start (runtime (snd (check_for_cuda (mock_gpu True) (start 0)))))) =
     fst (check_for_cuda (mock_gpu True) (start 0)) \<and>
   rendered (stdout (snd (check_for_cuda (mock_gpu True)
       (start (runtime (snd (check_for_cuda (mock_gpu True) (start 0)))))))) =
     rendered (stdout (snd (check_for_cuda (mock_gpu True) (start 0))))"
proof -
  have "\<forall>s. snd (import_torch (mock_gpu True) s) = s"
    and "\<forall>s. snd (current_device (mock_gpu True) s) = s"
    and "\<forall>s. snd (device_count (mock_gpu True) s) = s"
    and "\<forall>i s. snd (get_device_name (mock_gpu True) i s) = s"
    and "\<forall>s. snd (is_available (mock_gpu True) s) = s"
    and "\<forall>s d. fst (current_device (mock_gpu True) s) = Inr d \<longrightarrow>
           snd (device (mock_gpu True) d s) = s"
    by (simp_all add: mock_gpu_def)
  from idempotent [OF this, of 0] show ?thesis .
qed

text \<open>
  C9. When the first four calls return, with device index \<open>d\<close> and device count \<open>c\<close>, the
  fifth call in the log is the device-name query with argument \<open>d\<close>, whatever \<open>c\<close> is (no
  comparison of \<open>d\<close> with \<open>c\<close> stands before it). The count is used for its printed line
  only: a runtime answering \<open>c'\<close> instead gives the same run but for that line (and the
  answer recorded in the log).
\<close>

theorem index_not_checked_against_count:
  assumes "import_torch t s0 = (Inr (), s1)"
    and "current_device t s1 = (Inr d, s2)"
    and "device t d s2 = (Inr (), s3)"
    and "device_count t s3 = (Inr c, s4)"
    and "get_device_name t d s4 = (r, s5)"
  shows "take 5 (calls (snd (check_for_cuda t (start s0)))) =
           [Import_torch (Inr ()), Current_device (Inr d), Device d (Inr ()),
            Device_count (Inr c), Get_device_name d r] \<and>
         fst (check_for_cuda (with_device_count c' t) (start s0)) =
           fst (check_for_cuda t (start s0)) \<and>
         runtime (snd (check_for_cuda (with_device_count c' t) (start s0))) =
           runtime (snd (check_for_cuda t (start s0))) \<and>
         calls (snd (check_for_cuda (with_device_count c' t) (start s0))) =
           (calls (snd (check_for_cuda t (start s0))))[3 := Device_count (Inr c')] \<and>
         stdout (snd (check_for_cuda (with_device_count c' t) (start s0))) =
           (stdout (snd (check_for_cuda t (start s0))))
             [1 := ''Total number of available-cuda GPUs '' @ str_int c']"
proof -
  let ?t' = "with_device_count c' t"
  have a': "import_torch ?t' s0 = (Inr (), s1)" "current_device ?t' s1 = (Inr d, s2)"
    "device ?t' d s2 = (Inr (), s3)" "device_count ?t' s3 = (Inr c', s4)"
    "get_device_name ?t' d s4 = (r, s5)"
    using assms by (simp_all add: with_device_count_def)
  have avail: "is_available ?t' = is_available t"
    by (simp add: with_device_count_def)
  show ?thesis
  proof (cases r)
    case (Inl ex)
    note run = raises_at_get_device_name [OF assms(1-4) assms(5) [unfolded Inl]]
      raises_at_get_device_name [OF a'(1-4) a'(5) [unfolded Inl]]
    show ?thesis
      unfolding Inl run by (simp add: except_Exception_def print_def)
  next
    case (Inr n)
    obtain r6 s6 where 6: "is_available t s5 = (r6, s6)" by force
    show ?thesis
    proof (cases r6)
      case (Inl ex)
      note run = raises_at_is_available [OF assms(1-4) assms(5) [unfolded Inr] 6 [unfolded Inl]]
        raises_at_is_available [OF a'(1-4) a'(5) [unfolded Inr] 6 [folded avail, unfolded Inl]]
      show ?thesis
        unfolding Inr run by (simp add: except_Exception_def print_def)
    next
      case (Inr b)
      note run = runs_to_end [OF assms(1-4) assms(5) [unfolded \<open>r = Inr n\<close>] 6 [unfolded Inr]]
        runs_to_end [OF a'(1-4) a'(5) [unfolded \<open>r = Inr n\<close>] 6 [folded avail, unfolded Inr]]
      show ?thesis
        unfolding \<open>r = Inr n\<close> run by simp
    qed
  qed
qed

theorem index_not_checked_against_count_witness:
  "take 5 (calls (snd (check_for_cuda (mock_gpu True) (start 5)))) =
     [Import_torch (Inr ()), Current_device (Inr 5), Device 5 (Inr ()),
      Device_count (Inr 1), Get_device_name 5 (Inr ''Mock GPU'')] \<and>
   stdout (snd (check_for_cuda (with_device_count 0 (mock_gpu True)) (start 5))) =
     (stdout (snd (check_for_cuda (mock_gpu True) (start 5))))
       [1 := ''Total number of available-cuda GPUs 0''] \<and>
   calls (snd (check_for_cuda (with_device_count 0 (mock_gpu True)) (start 5))) =
     (calls (snd (check_for_cuda (mock_gpu True) (start 5))))[3 := Device_count (Inr 0)]"
proof -
  have "import_torch (mock_gpu True) 5 = (Inr (), 5)"
    and "current_device (mock_gpu True) 5 = (Inr 5, 5)"
    and "device (mock_gpu True) 5 5 = (Inr (), 5)"
    and "device_count (mock_gpu True) 5 = (Inr 1, 5)"
    and "get_device_name (mock_gpu True) 5 5 = (Inr ''Mock GPU'', 5)"
    by (simp_all add: mock_gpu_def)
  from index_not_checked_against_count [OF this, of 0] show ?thesis
    by (simp add: str_int_0)
qed

text \<open>
  C10. When the first calls return and the availability query itself raises an error
  (an instance of \<^verbatim>\<open>Exception\<close>), the three status lines stay and are followed by the one failure line;
  neither "Success" nor "Error" is printed.
\<close>

theorem availability_raises:
  assumes "import_torch t s0 = (Inr (), s1)"
    and "current_device t s1 = (Inr d, s2)"
    and "device t d s2 = (Inr (), s3)"
    and "device_count t s3 = (Inr c, s4)"
    and "get_device_name t d s4 = (Inr n, s5)"
    and "is_available t s5 = (Inl ex, s6)"
    and "is_Exception ex"
  shows "fst (check_for_cuda t (start s0)) = None \<and>
         stdout (snd (check_for_cuda t (start s0))) =
           [''Current device id '' @ str_int d,
            ''Total number of available-cuda GPUs '' @ str_int c,
            ''The name of the current device '' @ n,
            ''Cuda is not properly installed: '' @ str ex] \<and>
         ''Success'' \<notin> set (stdout (snd (check_for_cuda t (start s0)))) \<and>
         ''Error'' \<notin> set (stdout (snd (check_for_cuda t (start s0))))"
  using assms(7) by (simp add: raises_at_is_available [OF assms(1-6)] caught)

theorem availability_raises_witness:
  "is_Exception (Raised True ''driver too old'') \<and>
   fst (check_for_cuda (mock_raising 5 (Raised True ''driver too old'')) (start 0)) = None \<and>
   stdout (snd (check_for_cuda (mock_raising 5 (Raised True ''driver too old'')) (start 0))) =
     [''Current device id 0'',
      ''Total number of available-cuda GPUs 1'',
      ''The name of the current device Mock GPU'',
      ''Cuda is not properly installed: driver too old'']"
  using availability_raises [of "mock_raising 5 (Raised True ''driver too old'')"
      0 0 0 0 0 1 0 "''Mock GPU''" 0 "Raised True ''driver too old''" 0]
  by (simp add: mock_raising_def str_int_0 str_int_1)

end
